theory Spec2Isabelle
  imports Main "HOL-Library.Sublist" "HOL-Library.AList"
begin

section \<open>Values shared by the hooks and the components\<close>

text \<open>
  The errors the modelled JavaScript can throw: a property read on \<open>undefined\<close>
  (\<open>TypeError\<close>), the \<open>RegExp\<close> constructor on a malformed pattern
  (\<open>SyntaxError\<close>) and \<open>fs.readFileSync\<close> on a path that holds no file
  (\<open>ENOENT\<close>).
\<close>

datatype error = TypeError | SyntaxError | ENOENT

text \<open>
  A regular-expression literal without metacharacters, such as \<open>/snippets/\<close> or
  \<open>/@miragejs\/server/\<close>, is unanchored: it matches a string exactly when its text
  occurs somewhere in the string. \<open>Contains t\<close> is such a literal with text \<open>t\<close>.
\<close>

datatype regexp_literal = Contains string

fun occurs_in :: "string \<Rightarrow> string \<Rightarrow> bool" where
  "occurs_in t [] = (t = [])"
| "occurs_in t (c # cs) = (prefix t (c # cs) \<or> occurs_in t cs)"

fun regexp_match :: "regexp_literal \<Rightarrow> string \<Rightarrow> bool" where
  "regexp_match (Contains t) s = occurs_in t s"

section \<open>The build hooks (Gatsby's Node APIs)\<close>

text \<open>
  A graph node as \<open>onCreateNode\<close> reads it: \<open>node.internal.type\<close> and
  \<open>node.absolutePath\<close>. The path is read only behind the test on the type, and every
  node of type File carries one.
\<close>

record gatsby_node =
  internal_type :: string
  absolutePath :: string

record node_field =
  field_node :: gatsby_node
  field_name :: string
  field_value :: string

text \<open>
  A webpack rule \<open>{test, use}\<close>; the loader that \<open>loaders.null()\<close> returns comes from
  the build tool and stays a type parameter. A configuration passed to
  \<open>setWebpackConfig\<close> is the list \<open>module.rules\<close>.
\<close>

record 'l webpack_rule =
  rule_test :: regexp_literal
  rule_use :: 'l

record redirect =
  fromPath :: string
  toPath :: string

record page =
  page_path :: string
  matchPath :: string
  component :: string

text \<open>
  JSON values as \<open>JSON.parse\<close> returns them. The numbers are the runtime's; their
  type is a parameter and nothing is assumed of it. An object is the list of its
  properties in insertion order.
\<close>

datatype 'n json =
  JNull
  | JBool bool
  | JNum 'n
  | JStr string
  | JArr "'n json list"
  | JObj "(string \<times> 'n json) list"

type_synonym 'n json_object = "(string \<times> 'n json) list"

text \<open>
  The effects of the hooks are calls of Gatsby's action creators. The record keeps, for
  each action creator, the arguments of its calls in order, and the lines written by
  \<open>console.log\<close>.
\<close>

record ('l, 'n) actions =
  nodeFields :: "node_field list"
  webpackConfigs :: "'l webpack_rule list list"
  redirects :: "redirect list"
  pages :: "page list"
  nodes :: "'n json_object list"
  console :: "(string \<times> 'n json option) list"

definition createNodeField :: "node_field \<Rightarrow> ('l, 'n) actions \<Rightarrow> ('l, 'n) actions" where
  "createNodeField f a = a\<lparr>nodeFields := nodeFields a @ [f]\<rparr>"

definition setWebpackConfig :: "'l webpack_rule list \<Rightarrow> ('l, 'n) actions \<Rightarrow> ('l, 'n) actions" where
  "setWebpackConfig c a = a\<lparr>webpackConfigs := webpackConfigs a @ [c]\<rparr>"

definition createRedirect :: "redirect \<Rightarrow> ('l, 'n) actions \<Rightarrow> ('l, 'n) actions" where
  "createRedirect r a = a\<lparr>redirects := redirects a @ [r]\<rparr>"

definition createPage :: "page \<Rightarrow> ('l, 'n) actions \<Rightarrow> ('l, 'n) actions" where
  "createPage p a = a\<lparr>pages := pages a @ [p]\<rparr>"

definition createNode :: "'n json_object \<Rightarrow> ('l, 'n) actions \<Rightarrow> ('l, 'n) actions" where
  "createNode d a = a\<lparr>nodes := nodes a @ [d]\<rparr>"

definition console_log :: "string \<Rightarrow> 'n json option \<Rightarrow> ('l, 'n) actions \<Rightarrow> ('l, 'n) actions" where
  "console_log s v a = a\<lparr>console := console a @ [(s, v)]\<rparr>"

definition no_actions :: "('l, 'n) actions" where
  \<comment> \<open>before any action creator has been called\<close>
  "no_actions =
     \<lparr>nodeFields = [], webpackConfigs = [], redirects = [], pages = [], nodes = [],
      console = []\<rparr>"

subsection \<open>onCreateNode\<close>

text \<open>
  The file system is a map from paths to file contents; \<open>fs.readFileSync\<close> throws
  where the path holds no file.
\<close>

definition readFileSync :: "(string \<rightharpoonup> string) \<Rightarrow> string \<Rightarrow> error + string" where
  "readFileSync fs p = (case fs p of None \<Rightarrow> Inl ENOENT | Some t \<Rightarrow> Inr t)"

definition onCreateNode ::
  "(string \<rightharpoonup> string) \<Rightarrow> gatsby_node \<Rightarrow> ('l, 'n) actions \<Rightarrow> error + ('l, 'n) actions" where
  "onCreateNode fs node a =
     (if internal_type node = ''File'' \<and> regexp_match (Contains ''snippets'') (absolutePath node)
      then (case readFileSync fs (absolutePath node) of
              Inl e \<Rightarrow> Inl e
            | Inr text \<Rightarrow>
                Inr (createNodeField
                  \<lparr>field_node = node, field_name = ''content'', field_value = text\<rparr> a))
      else Inr a)"

subsection \<open>onCreateWebpackConfig\<close>

definition onCreateWebpackConfig :: "string \<Rightarrow> 'l \<Rightarrow> ('l, 'n) actions \<Rightarrow> ('l, 'n) actions" where
  "onCreateWebpackConfig stage null_loader a =
     (if stage = ''build-html'' \<or> stage = ''develop-html''
      then setWebpackConfig
             [\<lparr>rule_test = Contains ''@miragejs/server'', rule_use = null_loader\<rparr>] a
      else a)"

subsection \<open>createPages\<close>

text \<open>
  \<open>path.resolve\<close> turns a relative path into an absolute one against the working
  directory of the build; it is a parameter.
\<close>

definition createPageForAdam ::
  "(string \<Rightarrow> string) \<Rightarrow> string \<Rightarrow> ('l, 'n) actions \<Rightarrow> ('l, 'n) actions" where
  "createPageForAdam path_resolve p a =
     createPage \<lparr>page_path = p, matchPath = ''/*'',
                 component = path_resolve ''./src/routes/app.js''\<rparr> a"

definition createPages :: "(string \<Rightarrow> string) \<Rightarrow> ('l, 'n) actions \<Rightarrow> ('l, 'n) actions" where
  "createPages path_resolve a =
     createPageForAdam path_resolve ''/''
       (createRedirect
          \<lparr>fromPath = ''/docs'', toPath = ''/docs/getting-started/introduction''\<rparr> a)"

subsection \<open>sourceNodes\<close>

text \<open>
  What the hook is handed, and what the runtime does for it: \<open>createNodeId\<close> and
  \<open>createContentDigest\<close> come from the build tool; \<open>JSON.stringify\<close> and the conversion
  of a value to a string inside a template literal are the runtime's. The conversion
  formats numbers as the runtime does and can throw, for an object whose own
  \<open>toString\<close> is not a function.
\<close>

record 'n env =
  createNodeId :: "string \<Rightarrow> string"
  createContentDigest :: "string \<Rightarrow> string"
  JSON_stringify :: "'n json \<Rightarrow> string"
  ToString :: "'n json \<Rightarrow> error + string"

text \<open>
  In a template literal a missing property, \<open>undefined\<close>, becomes the text
  \<open>undefined\<close>.
\<close>

definition template :: "'n env \<Rightarrow> 'n json option \<Rightarrow> error + string" where
  "template h v = (case v of None \<Rightarrow> Inr ''undefined'' | Some j \<Rightarrow> ToString h j)"

text \<open>
  The generator writes \<open>index.json\<close> into the destination directory and the hook parses
  it. The generator and the name of the temporary directory are parameters; a generator
  that fails, or leaves no \<open>index.json\<close>, makes \<open>generateESDoc\<close> throw.
\<close>

definition esdoc_config :: "'n json_object" where
  "esdoc_config =
     [(''source'', JStr ''./node_modules/@miragejs/server/lib''),
      (''excludes'', JArr [JStr ''(node_modules|tests|tmp)'']),
      (''plugins'', JArr
         [JObj [(''name'', JStr ''esdoc-ecmascript-proposal-plugin''),
                (''option'', JObj
                   [(''classProperties'', JBool True),
                    (''objectRestSpread'', JBool True),
                    (''doExpressions'', JBool True),
                    (''functionBind'', JBool True),
                    (''functionSent'', JBool True),
                    (''asyncGenerators'', JBool True),
                    (''decorators'', JBool True),
                    (''exportExtensions'', JBool True),
                    (''dynamicImport'', JBool True)])],
          JObj [(''name'', JStr ''esdoc-accessor-plugin'')]])]"

definition generateESDoc ::
  "('n json_object \<Rightarrow> error + 'n json_object list) \<Rightarrow> string \<Rightarrow> 'n json_object
     \<Rightarrow> error + 'n json_object list" where
  "generateESDoc esdoc tmpdir config =
     esdoc (AList.update ''destination'' (JStr tmpdir) config)"

text \<open>
  The object spread \<open>{...node, ...{id, internal}}\<close> copies the entry's properties and
  then sets \<open>id\<close> and \<open>internal\<close>: a property of that name is overwritten in place, a
  new one is appended.
\<close>

definition esdoc_data :: "'n env \<Rightarrow> 'n json_object \<Rightarrow> error + 'n json_object" where
  "esdoc_data h node =
     (case template h (map_of node ''__docId__'') of
        Inl e \<Rightarrow> Inl e
      | Inr docId \<Rightarrow>
          Inr (AList.update ''internal''
                 (JObj [(''type'', JStr ''ESDoc''),
                        (''contentDigest'',
                         JStr (createContentDigest h (JSON_stringify h (JObj node))))])
                 (AList.update ''id'' (JStr (createNodeId h (''esdoc-'' @ docId))) node)))"

definition sourceNode ::
  "'n env \<Rightarrow> 'n json_object \<Rightarrow> ('l, 'n) actions \<Rightarrow> error + ('l, 'n) actions" where
  "sourceNode h node a =
     (case esdoc_data h node of
        Inl e \<Rightarrow> Inl e
      | Inr data \<Rightarrow>
          (let a' = createNode data a
           in if map_of node ''kind'' = Some (JStr ''class'')
                 \<and> map_of node ''access'' = Some (JStr ''public'')
              then Inr (console_log ''TODO create ssr page for'' (map_of node ''name'') a')
              else Inr a'))"

fun forEach :: "('a \<Rightarrow> 's \<Rightarrow> 's) \<Rightarrow> 'a list \<Rightarrow> 's \<Rightarrow> 's" where
  "forEach f [] s = s"
| "forEach f (x # xs) s = forEach f xs (f x s)"

text \<open>\<open>forEach\<close> with a callback that can throw stops at the first throw.\<close>

fun forEach_throws :: "('a \<Rightarrow> 's \<Rightarrow> error + 's) \<Rightarrow> 'a list \<Rightarrow> 's \<Rightarrow> error + 's" where
  "forEach_throws f [] s = Inr s"
| "forEach_throws f (x # xs) s =
     (case f x s of Inl e \<Rightarrow> Inl e | Inr s' \<Rightarrow> forEach_throws f xs s')"

definition sourceNodes ::
  "('n json_object \<Rightarrow> error + 'n json_object list) \<Rightarrow> string \<Rightarrow> 'n env
     \<Rightarrow> ('l, 'n) actions \<Rightarrow> error + ('l, 'n) actions" where
  "sourceNodes esdoc tmpdir h a =
     (case generateESDoc esdoc tmpdir esdoc_config of
        Inl e \<Rightarrow> Inl e
      | Inr docNodes \<Rightarrow> forEach_throws (sourceNode h) docNodes a)"

section \<open>The application shell: module map, Outlet and Header\<close>

subsection \<open>The module map\<close>

text \<open>
  \<open>require.context\<close> hands \<open>importAll\<close> the keys of the matched files and a function
  from a key to its module. \<open>key.substr(0, key.lastIndexOf(".")) || key\<close> drops the
  extension; when nothing is left (no dot, or only a leading one) the empty string is
  falsy and the key itself is used.
\<close>

fun lastIndexOf :: "string \<Rightarrow> char \<Rightarrow> int" where
  "lastIndexOf [] c = - 1"
| "lastIndexOf (x # xs) c =
     (let i = lastIndexOf xs c in if 0 \<le> i then i + 1 else if x = c then 0 else - 1)"

definition substr :: "string \<Rightarrow> int \<Rightarrow> string" where
  \<comment> \<open>\<open>s.substr(0, n)\<close>: a negative length gives the empty string\<close>
  "substr s n = take (nat n) s"

definition keyWithoutExtension :: "string \<Rightarrow> string" where
  "keyWithoutExtension key =
     (let s = substr key (lastIndexOf key CHR ''.'') in if s = [] then key else s)"

definition importAll ::
  "string list \<Rightarrow> (string \<Rightarrow> 'm) \<Rightarrow> (string \<rightharpoonup> 'm) \<Rightarrow> (string \<rightharpoonup> 'm)" where
  "importAll keys r m = forEach (\<lambda>key m. m(keyWithoutExtension key \<mapsto> r key)) keys m"

definition routeComponentsMap :: "string list \<Rightarrow> (string \<Rightarrow> 'm) \<Rightarrow> (string \<rightharpoonup> 'm)" where
  "routeComponentsMap keys r = importAll keys r Map.empty"

subsection \<open>renderRoutes and Outlet\<close>

text \<open>
  A module is the object webpack returns for a file; its \<open>default\<close> property is the
  route's component, \<open>undefined\<close> (\<open>None\<close>) when the file has no default export. A
  module object is truthy, so the test \<open>explicitComponent ? \<dots> : \<dots>\<close> asks whether
  the key is in the map.
\<close>

record 'c js_module =
  default_export :: "'c option"

datatype route = Route (route_path: string) (fullName: string) (routes: "route list")

datatype 'c element_type = ModuleDefault "'c option" | EmptyComponent

datatype 'c element =
  Element (el_type: "'c element_type") (el_path: string) (el_key: string)
          (el_children: "'c element list")

definition EmptyComponent_call :: "string \<Rightarrow> 'c element list \<Rightarrow> 'c element list" where
  \<comment> \<open>\<open>props => props.children\<close>, applied to the props \<open>path\<close> and \<open>children\<close>\<close>
  "EmptyComponent_call path children = children"

definition replace_dots :: "string \<Rightarrow> string" where
  \<comment> \<open>\<open>s.replace(/\./g, "/")\<close>\<close>
  "replace_dots s = map (\<lambda>c. if c = CHR ''.'' then CHR ''/'' else c) s"

definition lookup_key :: "string \<Rightarrow> string" where
  "lookup_key name = ''./'' @ replace_dots name"

fun renderRoute :: "(string \<rightharpoonup> 'c js_module) \<Rightarrow> route \<Rightarrow> 'c element" where
  "renderRoute m (Route p name sub) =
     Element
       (case m (lookup_key name) of
          Some explicitComponent \<Rightarrow> ModuleDefault (default_export explicitComponent)
        | None \<Rightarrow> EmptyComponent)
       p name (map (renderRoute m) sub)"

definition renderRoutes :: "(string \<rightharpoonup> 'c js_module) \<Rightarrow> route list \<Rightarrow> 'c element list" where
  "renderRoutes m rs = map (renderRoute m) rs"

datatype 'c router = Router (primary: bool) (router_children: "'c element list")

text \<open>
  \<open>memoizedOutlet\<close> is a variable of the module: \<open>undefined\<close> (\<open>None\<close>) until the first
  call, the array of rendered routes afterwards. An array is truthy even when empty.
  \<open>Outlet\<close> returns the element it renders and the new value of the variable.
\<close>

definition Outlet ::
  "(string \<rightharpoonup> 'c js_module) \<Rightarrow> route list \<Rightarrow> 'c element list option
     \<Rightarrow> 'c router \<times> 'c element list option" where
  "Outlet m router_routes memoizedOutlet =
     (case memoizedOutlet of
        None \<Rightarrow> (let t = renderRoutes m router_routes in (Router False t, Some t))
      | Some t \<Rightarrow> (Router False t, Some t))"

fun Outlet_calls ::
  "(string \<rightharpoonup> 'c js_module) \<Rightarrow> route list list \<Rightarrow> 'c element list option
     \<Rightarrow> 'c router list \<times> 'c element list option" where
  "Outlet_calls m [] memo = ([], memo)"
| "Outlet_calls m (rs # rss) memo =
     (case Outlet m rs memo of
        (out, memo') \<Rightarrow> (case Outlet_calls m rss memo' of (outs, memo'') \<Rightarrow> (out # outs, memo'')))"

subsection \<open>Header\<close>

text \<open>
  The state of \<open>Header\<close> is the one value kept by \<open>useState(false)\<close>. A render maps
  the prop \<open>showHeaderNav\<close> and the state to the elements shown and their click
  handlers; every handler is a call of \<open>setIsShowingMobileNav\<close> with a value computed
  from the state of that render. Class names, which depend on the theme only, are left
  out.
\<close>

datatype handler = SetIsShowingMobileNav bool

datatype icon = Close | Menu

record nav_link =
  link_to :: string
  link_activeFor :: string
  link_label :: string

record mobile_nav_link =
  mobile_to :: string
  mobile_label :: string
  mobile_onClick :: handler

text \<open>
  \<open>MobileNavLink\<close> renders a plain anchor for an external target
  (\<open>props.to.indexOf("http") === 0\<close>) and a router link otherwise; both receive the
  props, and with them the click handler.
\<close>

datatype link_element =
  Anchor (href: string) (anchor_onClick: handler)
  | RouterLink (to: string) (link_onClick: handler)

definition MobileNavLink :: "mobile_nav_link \<Rightarrow> link_element" where
  "MobileNavLink props =
     (if prefix ''http'' (mobile_to props)
      then Anchor (mobile_to props) (mobile_onClick props)
      else RouterLink (mobile_to props) (mobile_onClick props))"

fun element_onClick :: "link_element \<Rightarrow> handler" where
  "element_onClick (Anchor h f) = f"
| "element_onClick (RouterLink t f) = f"

record header_view =
  logo_onClick :: handler
  mobile_nav_button :: "(handler \<times> icon) option"
  desktop_nav :: "nav_link list"
  mobile_nav :: "link_element list option"

definition Header_useState :: bool where
  "Header_useState = False"

definition Header :: "bool \<Rightarrow> bool \<Rightarrow> header_view" where
  "Header showHeaderNav isShowingMobileNav =
     \<lparr>logo_onClick = SetIsShowingMobileNav False,
      mobile_nav_button =
        (if showHeaderNav
         then Some (SetIsShowingMobileNav (\<not> isShowingMobileNav),
                    if isShowingMobileNav then Close else Menu)
         else None),
      desktop_nav =
        (if showHeaderNav
         then [\<lparr>link_to = ''/docs/getting-started/introduction'',
                 link_activeFor = ''/docs/*'', link_label = ''Guides''\<rparr>,
               \<lparr>link_to = ''/api/classes/association'',
                 link_activeFor = ''/api/*'', link_label = ''API''\<rparr>,
               \<lparr>link_to = ''/examples/react/simple-example'',
                 link_activeFor = ''/examples/*'', link_label = ''Examples''\<rparr>]
         else []),
      mobile_nav =
        (if isShowingMobileNav
         then Some [MobileNavLink
                      \<lparr>mobile_to = ''/docs/getting-started/introduction'',
                        mobile_label = ''Guides'',
                        mobile_onClick = SetIsShowingMobileNav False\<rparr>,
                    MobileNavLink
                      \<lparr>mobile_to = ''/api/classes/association'',
                        mobile_label = ''API'',
                        mobile_onClick = SetIsShowingMobileNav False\<rparr>,
                    MobileNavLink
                      \<lparr>mobile_to = ''https://github.com/miragejs/server'',
                        mobile_label = ''GitHub'',
                        mobile_onClick = SetIsShowingMobileNav False\<rparr>]
         else None)\<rparr>"

text \<open>
  A click reaches the handler of the element clicked, if the render shows that element;
  the handler's call replaces the state and the component renders again.
\<close>

datatype click = ClickLogo | ClickMobileNavButton | ClickMobileNavLink nat

fun onClick :: "header_view \<Rightarrow> click \<Rightarrow> handler option" where
  "onClick v ClickLogo = Some (logo_onClick v)"
| "onClick v ClickMobileNavButton = map_option fst (mobile_nav_button v)"
| "onClick v (ClickMobileNavLink i) =
     (case mobile_nav v of
        None \<Rightarrow> None
      | Some links \<Rightarrow> if i < length links then Some (element_onClick (links ! i)) else None)"

definition Header_click :: "bool \<Rightarrow> bool \<Rightarrow> click \<Rightarrow> bool" where
  "Header_click showHeaderNav isShowingMobileNav c =
     (case onClick (Header showHeaderNav isShowingMobileNav) c of
        None \<Rightarrow> isShowingMobileNav
      | Some (SetIsShowingMobileNav b) \<Rightarrow> b)"

section \<open>The examples page: DocsPage\<close>

text \<open>
  \<open>fileAbsolutePath.match(/(\/examples\/.+)\.md[x]?/)\<close>. The pattern is a literal,
  then \<open>.+\<close> inside the group, then a literal and an optional \<open>x\<close>. The match starts
  at the leftmost occurrence of the first literal from which the rest can match; \<open>.+\<close>
  takes at least one character, none of them a line terminator, and as many as leave
  the second literal right behind it; the optional \<open>x\<close> changes neither whether
  there is a match nor the group. \<open>match_group p suf\<close> is this search for the
  pattern \<open>/(p.+)suf[x]?/\<close> and returns the group, \<open>match[1]\<close>, or \<open>None\<close> where
  \<open>match\<close> is null.
\<close>

definition line_terminator :: "char \<Rightarrow> bool" where
  "line_terminator c = (c = CHR 0x0A \<or> c = CHR 0x0D)"

fun dot_star_then :: "string \<Rightarrow> string \<Rightarrow> string option" where
  "dot_star_then suf [] = (if prefix suf [] then Some [] else None)"
| "dot_star_then suf (c # cs) =
     (case (if line_terminator c then None else dot_star_then suf cs) of
        Some t \<Rightarrow> Some (c # t)
      | None \<Rightarrow> if prefix suf (c # cs) then Some [] else None)"

fun dot_plus_then :: "string \<Rightarrow> string \<Rightarrow> string option" where
  "dot_plus_then suf [] = None"
| "dot_plus_then suf (c # cs) =
     (if line_terminator c then None else map_option ((#) c) (dot_star_then suf cs))"

fun match_group :: "string \<Rightarrow> string \<Rightarrow> string \<Rightarrow> string option" where
  "match_group p suf [] = None"
| "match_group p suf (c # cs) =
     (case (if prefix p (c # cs) then dot_plus_then suf (drop (length p) (c # cs)) else None) of
        Some t \<Rightarrow> Some (p @ t)
      | None \<Rightarrow> match_group p suf cs)"

definition match_examples :: "string \<Rightarrow> string option" where
  "match_examples s = match_group ''/examples/'' ''.md'' s"

text \<open>
  The table of contents of an MDX node: an item has a url, a title and, when it has
  sub-items, the property \<open>items\<close>; the table itself has only \<open>items\<close>, and not even
  that for a page without headings.
\<close>

datatype toc =
  Toc (toc_url: "string option") (toc_title: "string option") (toc_items: "toc list option")

record mdx_node =
  fileAbsolutePath :: string
  tableOfContents :: toc

text \<open>
  \<open>new RegExp(pattern)\<close> belongs to the runtime: the parameter \<open>RegExp\<close> maps the
  text of a pattern to the predicate \<open>regexp.test\<close>, or to \<open>None\<close> where the constructor
  throws a SyntaxError.
\<close>

type_synonym regexp_engine = "string \<Rightarrow> (string \<Rightarrow> bool) option"

definition didMatch :: "regexp_engine \<Rightarrow> string \<Rightarrow> mdx_node \<Rightarrow> error + bool" where
  "didMatch RegExp pathname node =
     (case match_examples (fileAbsolutePath node) of
        None \<Rightarrow> Inr False
      | Some m1 \<Rightarrow>
          (case RegExp (m1 @ ''/?'') of
             None \<Rightarrow> Inl SyntaxError
           | Some regexp \<Rightarrow> Inr (regexp pathname)))"

fun array_find :: "('a \<Rightarrow> error + bool) \<Rightarrow> 'a list \<Rightarrow> error + 'a option" where
  "array_find p [] = Inr None"
| "array_find p (x # xs) =
     (case p x of
        Inl e \<Rightarrow> Inl e
      | Inr b \<Rightarrow> if b then Inr (Some x) else array_find p xs)"

definition mdxPage :: "regexp_engine \<Rightarrow> string \<Rightarrow> mdx_node list \<Rightarrow> error + mdx_node option" where
  "mdxPage RegExp pathname allMdx = array_find (didMatch RegExp pathname) allMdx"

text \<open>
  \<open>mdxPage && mdxPage.tableOfContents.items[0].items\<close>: \<open>undefined\<close> (\<open>None\<close>) for
  no page; otherwise \<open>items[0]\<close> throws when \<open>items\<close> is missing, and \<open>.items\<close>
  throws when \<open>items[0]\<close> is.
\<close>

definition tableOfContentsItems :: "mdx_node option \<Rightarrow> error + toc list option" where
  "tableOfContentsItems page =
     (case page of
        None \<Rightarrow> Inr None
      | Some node \<Rightarrow>
          (case toc_items (tableOfContents node) of
             None \<Rightarrow> Inl TypeError
           | Some [] \<Rightarrow> Inl TypeError
           | Some (first # rest) \<Rightarrow> Inr (toc_items first)))"

record ('r, 'p) docs_router =
  router_routes :: 'r
  router_previousPage :: 'p
  router_nextPage :: 'p

record ('r, 'p, 'ch) three_column_layout =
  layout_routes :: 'r
  previousPage :: 'p
  nextPage :: 'p
  currentPageTableOfContentsItems :: "toc list option"
  layout_children :: 'ch

definition DocsPage ::
  "regexp_engine \<Rightarrow> (string \<Rightarrow> ('r, 'p) docs_router) \<Rightarrow> mdx_node list \<Rightarrow> string \<Rightarrow> 'ch
     \<Rightarrow> error + ('r, 'p, 'ch) three_column_layout" where
  "DocsPage RegExp routerFor allMdx pathname children =
     (case mdxPage RegExp pathname allMdx of
        Inl e \<Rightarrow> Inl e
      | Inr page \<Rightarrow>
          (case tableOfContentsItems page of
             Inl e \<Rightarrow> Inl e
           | Inr items \<Rightarrow>
               (let docsRouter = routerFor ''/examples''
                in Inr \<lparr>layout_routes = router_routes docsRouter,
                        previousPage = router_previousPage docsRouter,
                        nextPage = router_nextPage docsRouter,
                        currentPageTableOfContentsItems = items,
                        layout_children = children\<rparr>)))"

section \<open>Properties of the build hooks\<close>

lemma occurs_in_sublist: "occurs_in t s \<longleftrightarrow> sublist t s"
  by (induction s) (auto simp: sublist_Cons_right)

text \<open>
  Claim C1. \<open>createPages\<close> creates one page, for the path \<open>/\<close>, whose \<open>matchPath\<close> is
  \<open>/*\<close> and whose component is the file \<open>./src/routes/app.js\<close>, resolved against the
  build's directory: the one top-level component, behind the pattern that the build tool
  matches every path against.
\<close>

theorem createPages_catch_all:
  "pages (createPages path_resolve a) =
     pages a @ [\<lparr>page_path = ''/'', matchPath = ''/*'',
                  component = path_resolve ''./src/routes/app.js''\<rparr>]"
  by (simp add: createPages_def createPageForAdam_def createPage_def createRedirect_def)

text \<open>
  Claim C2. \<open>createPages\<close> registers the redirect from \<open>/docs\<close> to
  \<open>/docs/getting-started/introduction\<close> and no other redirect: the list of registered
  redirects grows by exactly this one.
\<close>

theorem createPages_redirect:
  "redirects (createPages path_resolve a) =
     redirects a @
       [\<lparr>fromPath = ''/docs'', toPath = ''/docs/getting-started/introduction''\<rparr>]"
  by (simp add: createPages_def createPageForAdam_def createPage_def createRedirect_def)

text \<open>
  Claim C6. In the stages \<open>build-html\<close> and \<open>develop-html\<close>, \<open>onCreateWebpackConfig\<close>
  adds one configuration whose only rule sends the modules matching
  \<open>@miragejs/server\<close> (those whose request contains that text) to the null loader; in
  every other stage it leaves all recorded actions, the webpack configuration among
  them, as they were.
\<close>

theorem onCreateWebpackConfig_stage:
  "(stage = ''build-html'' \<or> stage = ''develop-html'' \<longrightarrow>
      onCreateWebpackConfig stage null_loader a =
        a\<lparr>webpackConfigs := webpackConfigs a @
            [[\<lparr>rule_test = Contains ''@miragejs/server'', rule_use = null_loader\<rparr>]]\<rparr>)
   \<and> (stage \<noteq> ''build-html'' \<and> stage \<noteq> ''develop-html'' \<longrightarrow>
      onCreateWebpackConfig stage null_loader a = a)
   \<and> regexp_match (Contains ''@miragejs/server'') request
       = sublist ''@miragejs/server'' request"
  by (simp add: onCreateWebpackConfig_def setWebpackConfig_def occurs_in_sublist)

theorem onCreateWebpackConfig_stage_witness:
  "onCreateWebpackConfig ''build-html'' () (no_actions :: (unit, unit) actions) =
     no_actions\<lparr>webpackConfigs :=
       [[\<lparr>rule_test = Contains ''@miragejs/server'', rule_use = ()\<rparr>]]\<rparr>
   \<and> onCreateWebpackConfig ''develop-html'' () (no_actions :: (unit, unit) actions) =
     no_actions\<lparr>webpackConfigs :=
       [[\<lparr>rule_test = Contains ''@miragejs/server'', rule_use = ()\<rparr>]]\<rparr>
   \<and> onCreateWebpackConfig ''build-javascript'' () (no_actions :: (unit, unit) actions)
       = no_actions"
  using
    onCreateWebpackConfig_stage [of "''build-html''" "()" "no_actions :: (unit, unit) actions"]
    onCreateWebpackConfig_stage [of "''develop-html''" "()" "no_actions :: (unit, unit) actions"]
    onCreateWebpackConfig_stage
      [of "''build-javascript''" "()" "no_actions :: (unit, unit) actions"]
  by (simp add: no_actions_def)

text \<open>
  Claim C7. For a node of type \<open>File\<close> whose absolute path contains \<open>snippets\<close>,
  \<open>onCreateNode\<close> creates the field \<open>content\<close> on that node, holding the text of the
  file at that path; for any other node it creates no field and changes nothing.
\<close>

theorem onCreateNode_content:
  "(internal_type node = ''File'' \<and> sublist ''snippets'' (absolutePath node)
      \<and> fs (absolutePath node) = Some text \<longrightarrow>
      onCreateNode fs node a =
        Inr (a\<lparr>nodeFields := nodeFields a @
               [\<lparr>field_node = node, field_name = ''content'', field_value = text\<rparr>]\<rparr>))
   \<and> (\<not> (internal_type node = ''File'' \<and> sublist ''snippets'' (absolutePath node)) \<longrightarrow>
      onCreateNode fs node a = Inr a)"
  by (simp add: onCreateNode_def readFileSync_def createNodeField_def occurs_in_sublist)

theorem onCreateNode_content_witness:
  "onCreateNode [''/site/src/snippets/intro.js'' \<mapsto> ''let x = 1'']
     \<lparr>internal_type = ''File'', absolutePath = ''/site/src/snippets/intro.js''\<rparr>
     (no_actions :: (unit, unit) actions) =
   Inr (no_actions\<lparr>nodeFields :=
     [\<lparr>field_node = \<lparr>internal_type = ''File'', absolutePath = ''/site/src/snippets/intro.js''\<rparr>,
       field_name = ''content'', field_value = ''let x = 1''\<rparr>]\<rparr>)
   \<and> onCreateNode [''/site/src/snippets/intro.js'' \<mapsto> ''let x = 1'']
     \<lparr>internal_type = ''File'', absolutePath = ''/site/src/routes/app.js''\<rparr>
     (no_actions :: (unit, unit) actions) = Inr no_actions
   \<and> onCreateNode [''/site/src/snippets/intro.js'' \<mapsto> ''let x = 1'']
     \<lparr>internal_type = ''Directory'', absolutePath = ''/site/src/snippets''\<rparr>
     (no_actions :: (unit, unit) actions) = Inr no_actions"
  using
    onCreateNode_content [of
      "\<lparr>internal_type = ''File'', absolutePath = ''/site/src/snippets/intro.js''\<rparr>"
      "[''/site/src/snippets/intro.js'' \<mapsto> ''let x = 1'']" "''let x = 1''"
      "no_actions :: (unit, unit) actions"]
    onCreateNode_content [of
      "\<lparr>internal_type = ''File'', absolutePath = ''/site/src/routes/app.js''\<rparr>"
      "[''/site/src/snippets/intro.js'' \<mapsto> ''let x = 1'']" "''''"
      "no_actions :: (unit, unit) actions"]
    onCreateNode_content [of
      "\<lparr>internal_type = ''Directory'', absolutePath = ''/site/src/snippets''\<rparr>"
      "[''/site/src/snippets/intro.js'' \<mapsto> ''let x = 1'']" "''''"
      "no_actions :: (unit, unit) actions"]
  by (simp add: no_actions_def occurs_in_sublist [symmetric])

lemma onCreateNode_ENOENT:
  "internal_type node = ''File'' \<Longrightarrow> sublist ''snippets'' (absolutePath node)
     \<Longrightarrow> fs (absolutePath node) = None \<Longrightarrow> onCreateNode fs node a = Inl ENOENT"
  by (simp add: onCreateNode_def readFileSync_def occurs_in_sublist)

text \<open>
  What \<open>sourceNodes\<close> does where no conversion throws: one call of \<open>createNode\<close> for
  each entry, in order; the data has the generated \<open>id\<close>, the \<open>internal\<close> of type
  \<open>ESDoc\<close>, and every other property as the entry has it.
\<close>

lemma esdoc_data_map_of:
  "esdoc_data h node = Inr data \<Longrightarrow>
     \<exists>docId. template h (map_of node ''__docId__'') = Inr docId
       \<and> map_of data =
           (map_of node)
             (''id'' \<mapsto> JStr (createNodeId h (''esdoc-'' @ docId)),
              ''internal'' \<mapsto>
                JObj [(''type'', JStr ''ESDoc''),
                      (''contentDigest'',
                       JStr (createContentDigest h (JSON_stringify h (JObj node))))])"
  by (auto simp: esdoc_data_def update_conv' split: sum.splits)

lemma esdoc_data_carries:
  assumes "esdoc_data h node = Inr data" "map_of node ''id'' = None"
    "map_of node ''internal'' = None" "map_of node k = Some v"
  shows "map_of data k = Some v"
proof -
  from assms(2-4) have "k \<noteq> ''id''" "k \<noteq> ''internal''" by auto
  with esdoc_data_map_of[OF assms(1)] assms(4) show ?thesis by auto
qed

lemma esdoc_data_no_docId:
  assumes "map_of node ''__docId__'' = None"
  shows "\<exists>data. esdoc_data h node = Inr data
           \<and> map_of data ''id'' = Some (JStr (createNodeId h ''esdoc-undefined''))"
  using assms by (simp add: esdoc_data_def template_def update_conv')

lemma nodes_sourceNode:
  "sourceNode h node a = Inr a' \<Longrightarrow>
     \<exists>data. esdoc_data h node = Inr data \<and> nodes a' = nodes a @ [data]"
  by (auto simp: sourceNode_def createNode_def console_log_def Let_def
           split: sum.splits if_splits)

lemma nodes_forEach_sourceNode:
  "\<forall>node\<in>set ds. esdoc_data h node = Inr (f node) \<Longrightarrow>
     \<exists>a'. forEach_throws (sourceNode h) ds a = Inr a' \<and> nodes a' = nodes a @ map f ds"
proof (induction ds arbitrary: a)
  case Nil
  then show ?case by simp
next
  case (Cons d ds)
  from Cons.prems have d: "esdoc_data h d = Inr (f d)" by simp
  then have "\<exists>a1. sourceNode h d a = Inr a1"
    by (simp add: sourceNode_def Let_def)
  then obtain a1 where a1: "sourceNode h d a = Inr a1" ..
  from nodes_sourceNode[OF a1] d have n1: "nodes a1 = nodes a @ [f d]" by simp
  from Cons.prems have "\<forall>node\<in>set ds. esdoc_data h node = Inr (f node)" by simp
  from Cons.IH[OF this, of a1] obtain a' where
    "forEach_throws (sourceNode h) ds a1 = Inr a'" "nodes a' = nodes a1 @ map f ds"
    by (elim exE conjE)
  with a1 n1 show ?case by simp
qed

lemma sourceNodes_calls:
  "generateESDoc esdoc tmpdir esdoc_config = Inr docNodes \<Longrightarrow>
     \<forall>node\<in>set docNodes. esdoc_data h node = Inr (f node) \<Longrightarrow>
     \<exists>a'. sourceNodes esdoc tmpdir h a = Inr a' \<and> nodes a' = nodes a @ map f docNodes"
  using nodes_forEach_sourceNode[of docNodes h f a] by (simp add: sourceNodes_def)

text \<open>
  Claim C8. The claim gives every entry a graph node of its own, with an id derived from
  the entry's \<open>__docId__\<close>. For an entry without \<open>__docId__\<close> the template yields
  \<open>esdoc-undefined\<close>; the generator's entries of kind \<open>index\<close> and \<open>packageJSON\<close>
  are two such. The two calls of \<open>createNode\<close> for them carry one and the same id,
  derived from no \<open>__docId__\<close>.
\<close>

theorem sourceNodes_shared_id:
  "sourceNodes
     (\<lambda>config.
        Inr [[(''kind'', JStr ''index''), (''content'', JStr ''# Mirage''),
              (''longname'', JStr ''/site/README.md''), (''name'', JStr ''./README.md''),
              (''static'', JBool True), (''access'', JStr ''public'')],
             [(''kind'', JStr ''packageJSON''), (''content'', JStr ''{}''),
              (''longname'', JStr ''/site/package.json''), (''name'', JStr ''package.json''),
              (''static'', JBool True), (''access'', JStr ''public'')]])
     tmpdir h no_actions
   = Inr (no_actions\<lparr>nodes :=
       [[(''kind'', JStr ''index''), (''content'', JStr ''# Mirage''),
         (''longname'', JStr ''/site/README.md''), (''name'', JStr ''./README.md''),
         (''static'', JBool True), (''access'', JStr ''public''),
         (''id'', JStr (createNodeId h ''esdoc-undefined'')),
         (''internal'',
          JObj [(''type'', JStr ''ESDoc''),
                (''contentDigest'',
                 JStr (createContentDigest h (JSON_stringify h
                   (JObj [(''kind'', JStr ''index''), (''content'', JStr ''# Mirage''),
                          (''longname'', JStr ''/site/README.md''),
                          (''name'', JStr ''./README.md''),
                          (''static'', JBool True), (''access'', JStr ''public'')]))))])],
        [(''kind'', JStr ''packageJSON''), (''content'', JStr ''{}''),
         (''longname'', JStr ''/site/package.json''), (''name'', JStr ''package.json''),
         (''static'', JBool True), (''access'', JStr ''public''),
         (''id'', JStr (createNodeId h ''esdoc-undefined'')),
         (''internal'',
          JObj [(''type'', JStr ''ESDoc''),
                (''contentDigest'',
                 JStr (createContentDigest h (JSON_stringify h
                   (JObj [(''kind'', JStr ''packageJSON''), (''content'', JStr ''{}''),
                          (''longname'', JStr ''/site/package.json''),
                          (''name'', JStr ''package.json''),
                          (''static'', JBool True), (''access'', JStr ''public'')]))))])]]\<rparr>)"
  by (simp add: sourceNodes_def generateESDoc_def sourceNode_def esdoc_data_def
        template_def createNode_def no_actions_def Let_def)

section \<open>Properties of the application shell\<close>

lemma dom_importAll:
  "dom (importAll keys r m) = dom m \<union> keyWithoutExtension ` set keys"
  unfolding importAll_def by (induction keys arbitrary: m) auto

lemma renderRoute_sel:
  "el_type (renderRoute m r) =
     (case m (lookup_key (fullName r)) of
        Some e \<Rightarrow> ModuleDefault (default_export e) | None \<Rightarrow> EmptyComponent)"
  "el_path (renderRoute m r) = route_path r"
  "el_key (renderRoute m r) = fullName r"
  "el_children (renderRoute m r) = renderRoutes m (routes r)"
  by (cases r; simp add: renderRoutes_def)+

text \<open>
  Claim C3. \<open>renderRoutes\<close> renders one element for each route. Where the route's
  \<open>fullName\<close>, with its dots replaced by slashes and \<open>./\<close> in front, is a key of the
  module map, the element's component is the default export of the module under that
  key; where it is not a key, the component is the pass-through component, which returns
  the children it is given. There is no third case. In both cases the element's children
  are the rendered sub-routes.
\<close>

theorem renderRoutes_lookup:
  "length (renderRoutes m rs) = length rs
   \<and> (\<forall>i<length rs.
        (\<forall>module. m (lookup_key (fullName (rs ! i))) = Some module \<longrightarrow>
           el_type (renderRoutes m rs ! i) = ModuleDefault (default_export module))
      \<and> (lookup_key (fullName (rs ! i)) \<notin> dom m \<longrightarrow>
           el_type (renderRoutes m rs ! i) = EmptyComponent
           \<and> EmptyComponent_call (el_path (renderRoutes m rs ! i))
                (el_children (renderRoutes m rs ! i)) = renderRoutes m (routes (rs ! i)))
      \<and> el_path (renderRoutes m rs ! i) = route_path (rs ! i)
      \<and> el_key (renderRoutes m rs ! i) = fullName (rs ! i)
      \<and> el_children (renderRoutes m rs ! i) = renderRoutes m (routes (rs ! i)))"
proof -
  have "renderRoutes m rs ! i = renderRoute m (rs ! i)" if "i < length rs" for i
    using that by (simp add: renderRoutes_def)
  then show ?thesis
    by (auto simp: renderRoute_sel EmptyComponent_call_def renderRoutes_def[of m rs] domIff)
qed

theorem renderRoutes_lookup_witness:
  "lookup_key ''docs.intro'' = ''./docs/intro''
   \<and> map el_type
       (renderRoutes
          (routeComponentsMap [''./docs/intro.mdx'']
             (\<lambda>key. \<lparr>default_export = Some key\<rparr>))
          [Route ''/docs/intro'' ''docs.intro'' [], Route ''/api'' ''api'' []])
     = [ModuleDefault (Some ''./docs/intro.mdx''), EmptyComponent]"
proof -
  let ?m = "routeComponentsMap [''./docs/intro.mdx''] (\<lambda>key. \<lparr>default_export = Some key\<rparr>)"
  let ?rs = "[Route ''/docs/intro'' ''docs.intro'' [], Route ''/api'' ''api'' []]"
  have k: "lookup_key ''docs.intro'' = ''./docs/intro''" "lookup_key ''api'' = ''./api''"
    by (simp_all add: lookup_key_def replace_dots_def)
  have m: "?m = [''./docs/intro'' \<mapsto> \<lparr>default_export = Some ''./docs/intro.mdx''\<rparr>]"
    by (simp add: routeComponentsMap_def importAll_def keyWithoutExtension_def substr_def)
  have l: "length (renderRoutes ?m ?rs) = 2"
    and a: "el_type (renderRoutes ?m ?rs ! 0) = ModuleDefault (Some ''./docs/intro.mdx'')"
    and b: "el_type (renderRoutes ?m ?rs ! 1) = EmptyComponent"
    using renderRoutes_lookup [of ?m ?rs] by (simp_all add: k m)
  have "map el_type (renderRoutes ?m ?rs)
          = [ModuleDefault (Some ''./docs/intro.mdx''), EmptyComponent]"
    using l a b by (simp add: list_eq_iff_nth_eq less_Suc_eq numeral_2_eq_2)
  with k(1) show ?thesis by (rule conjI)
qed

text \<open>
  Claim C5. The state of \<open>Header\<close> is one boolean, \<open>False\<close> at first. A click on the
  mobile nav button (shown when \<open>showHeaderNav\<close> holds) replaces it by its negation; a
  click on the logo link, or on any link of the mobile navigation, sets it to \<open>False\<close>;
  the mobile navigation is rendered exactly when it is \<open>True\<close>.
\<close>

theorem Header_state:
  "Header_useState = False
   \<and> (showHeaderNav \<longrightarrow> Header_click showHeaderNav s ClickMobileNavButton = (\<not> s))
   \<and> Header_click showHeaderNav s ClickLogo = False
   \<and> (\<forall>links. mobile_nav (Header showHeaderNav s) = Some links \<longrightarrow>
         (\<forall>i<length links. Header_click showHeaderNav s (ClickMobileNavLink i) = False))
   \<and> (mobile_nav (Header showHeaderNav s) \<noteq> None \<longleftrightarrow> s)"
  by (auto simp: Header_useState_def Header_click_def Header_def MobileNavLink_def less_Suc_eq)

theorem Header_state_witness:
  "Header_click True False ClickMobileNavButton = True
   \<and> Header_click True True ClickMobileNavButton = False
   \<and> mobile_nav (Header True True) \<noteq> None
   \<and> Header_click True True (ClickMobileNavLink 2) = False"
  using Header_state [of True False] Header_state [of True True]
  by (auto simp: Header_def)

lemma Outlet_calls_Some:
  "Outlet_calls m rss (Some t) = (replicate (length rss) (Router False t), Some t)"
  by (induction rss) (simp_all add: Outlet_def)

text \<open>
  Claim C9. The first call of \<open>Outlet\<close> renders the routes the router has then and
  keeps the result; every later call returns that same tree, whatever routes the router
  has by then.
\<close>

theorem Outlet_memoized:
  "Outlet_calls m (rs # rss) None =
     (replicate (Suc (length rss)) (Router False (renderRoutes m rs)),
      Some (renderRoutes m rs))"
  by (simp add: Outlet_def Outlet_calls_Some Let_def)

section \<open>Properties of the examples page\<close>

text \<open>
  The search agrees with the pattern: a group is returned exactly for the strings that
  contain \<open>/examples/\<close>, then at least one character and no line terminator, then
  \<open>.md\<close>; the group is the first literal and what \<open>.+\<close> took; and \<open>.+\<close> took the most
  it could.
\<close>

lemma dot_star_then_Some:
  "dot_star_then suf s = Some t \<Longrightarrow>
     prefix (t @ suf) s \<and> (\<forall>c\<in>set t. \<not> line_terminator c)"
proof (induction s arbitrary: t)
  case Nil
  then show ?case by (simp split: if_splits)
next
  case (Cons c cs)
  let ?more = "if line_terminator c then None else dot_star_then suf cs"
  show ?case
  proof (cases ?more)
    case None
    with Cons.prems show ?thesis by (simp split: if_splits)
  next
    case (Some u)
    then have c: "\<not> line_terminator c" and u: "dot_star_then suf cs = Some u"
      by (simp_all split: if_splits)
    from Some Cons.prems have "t = c # u" by simp
    with Cons.IH[OF u] c show ?thesis by simp
  qed
qed

lemma dot_plus_then_Some:
  assumes "dot_plus_then suf s = Some t"
  shows "t \<noteq> [] \<and> prefix (t @ suf) s \<and> (\<forall>c\<in>set t. \<not> line_terminator c)"
proof (cases s)
  case Nil
  with assms show ?thesis by simp
next
  case (Cons c cs)
  with assms have c: "\<not> line_terminator c"
    and "map_option ((#) c) (dot_star_then suf cs) = Some t"
    by (simp_all split: if_splits)
  then obtain u where u: "dot_star_then suf cs = Some u" and t: "t = c # u"
    by (cases "dot_star_then suf cs") auto
  from dot_star_then_Some[OF u] c t Cons show ?thesis by simp
qed

lemma match_group_Some:
  "match_group p suf s = Some m \<Longrightarrow>
     \<exists>pre t post. s = pre @ p @ t @ suf @ post \<and> m = p @ t
        \<and> t \<noteq> [] \<and> (\<forall>c\<in>set t. \<not> line_terminator c)"
proof (induction s)
  case Nil
  then show ?case by simp
next
  case (Cons c cs)
  let ?here = "if prefix p (c # cs) then dot_plus_then suf (drop (length p) (c # cs)) else None"
  show ?case
  proof (cases ?here)
    case None
    with Cons.prems have "match_group p suf cs = Some m" by simp
    from Cons.IH[OF this] obtain pre t post where
      s: "cs = pre @ p @ t @ suf @ post" and r: "m = p @ t"
        "t \<noteq> []" "\<forall>c\<in>set t. \<not> line_terminator c"
      by blast
    from s have "c # cs = (c # pre) @ p @ t @ suf @ post" by simp
    with r show ?thesis by blast
  next
    case (Some t)
    then have p: "prefix p (c # cs)"
      and d: "dot_plus_then suf (drop (length p) (c # cs)) = Some t"
      by (simp_all split: if_splits)
    from Some Cons.prems have m: "m = p @ t" by simp
    from p obtain r where r: "c # cs = p @ r" by (rule prefixE)
    then have "drop (length p) (c # cs) = r" by simp
    with d have "dot_plus_then suf r = Some t" by simp
    from dot_plus_then_Some[OF this]
    have t: "t \<noteq> []" "prefix (t @ suf) r" "\<forall>c\<in>set t. \<not> line_terminator c"
      by simp_all
    from t(2) obtain post where "r = (t @ suf) @ post" by (rule prefixE)
    with r have "c # cs = [] @ p @ t @ suf @ post" by simp
    with m t(1,3) show ?thesis by blast
  qed
qed

lemma dot_star_then_prefix: "prefix suf s \<Longrightarrow> dot_star_then suf s \<noteq> None"
  by (cases s) (auto split: option.splits)

lemma dot_star_then_complete:
  "\<forall>c\<in>set t. \<not> line_terminator c \<Longrightarrow> dot_star_then suf (t @ suf @ post) \<noteq> None"
proof (induction t)
  case Nil
  show ?case by (simp add: dot_star_then_prefix)
next
  case (Cons c t)
  then show ?case by (auto split: option.splits)
qed

lemma dot_plus_then_complete:
  "t \<noteq> [] \<Longrightarrow> \<forall>c\<in>set t. \<not> line_terminator c
     \<Longrightarrow> dot_plus_then suf (t @ suf @ post) \<noteq> None"
  using dot_star_then_complete by (cases t) auto

lemma match_group_complete:
  "t \<noteq> [] \<Longrightarrow> \<forall>c\<in>set t. \<not> line_terminator c
     \<Longrightarrow> match_group p suf (pre @ p @ t @ suf @ post) \<noteq> None"
proof (induction pre)
  case Nil
  from Nil have ne: "p @ t @ suf @ post \<noteq> []" by simp
  then obtain c cs where cs: "p @ t @ suf @ post = c # cs"
    by (cases "p @ t @ suf @ post") auto
  have "prefix p (c # cs)" using cs by (metis prefixI)
  moreover have "drop (length p) (c # cs) = t @ suf @ post"
    using cs by (metis append_eq_conv_conj)
  moreover note dot_plus_then_complete[OF Nil, of suf post]
  ultimately have "match_group p suf (c # cs) \<noteq> None"
    by (auto split: option.splits)
  with cs show ?case by simp
next
  case (Cons c pre)
  from Cons.IH[OF Cons.prems] show ?case
    by (auto split: option.splits)
qed

lemma dot_star_then_longest:
  "dot_star_then suf s = Some t \<Longrightarrow> prefix (t' @ suf) s
     \<Longrightarrow> \<forall>c\<in>set t'. \<not> line_terminator c \<Longrightarrow> length t' \<le> length t"
proof (induction s arbitrary: t t')
  case Nil
  then show ?case by simp
next
  case (Cons c cs)
  show ?case
  proof (cases t')
    case Nil
    then show ?thesis by simp
  next
    case (Cons d u')
    with Cons.prems(2,3) have c: "d = c" "\<not> line_terminator c"
      and p: "prefix (u' @ suf) cs" and n: "\<forall>c\<in>set u'. \<not> line_terminator c"
      by simp_all
    from p obtain post where "cs = u' @ suf @ post" by (auto elim: prefixE)
    with dot_star_then_complete[OF n, of suf post]
    obtain u where u: "dot_star_then suf cs = Some u" by auto
    with Cons.prems(1) c have "t = c # u" by simp
    with Cons.IH[OF u p n] Cons show ?thesis by simp
  qed
qed

lemma dot_plus_then_longest:
  assumes "dot_plus_then suf s = Some t" "prefix (t' @ suf) s"
    "\<forall>c\<in>set t'. \<not> line_terminator c"
  shows "length t' \<le> length t"
proof (cases t')
  case Nil
  then show ?thesis by simp
next
  case (Cons d u')
  with assms(2) obtain cs where s: "s = d # cs" and p: "prefix (u' @ suf) cs"
    by (cases s) auto
  from assms(1) s obtain u where u: "dot_star_then suf cs = Some u" and t: "t = d # u"
    by (cases "dot_star_then suf cs") (auto split: if_splits)
  from assms(3) Cons have "\<forall>c\<in>set u'. \<not> line_terminator c" by simp
  from dot_star_then_longest[OF u p this] t Cons show ?thesis by simp
qed

lemma match_examples_iff:
  "match_examples s \<noteq> None \<longleftrightarrow>
     (\<exists>pre t post. s = pre @ ''/examples/'' @ t @ ''.md'' @ post
        \<and> t \<noteq> [] \<and> (\<forall>c\<in>set t. \<not> line_terminator c))"
proof
  assume "match_examples s \<noteq> None"
  then obtain m where "match_group ''/examples/'' ''.md'' s = Some m"
    by (auto simp: match_examples_def)
  from match_group_Some[OF this] show
    "\<exists>pre t post. s = pre @ ''/examples/'' @ t @ ''.md'' @ post
        \<and> t \<noteq> [] \<and> (\<forall>c\<in>set t. \<not> line_terminator c)"
    by blast
next
  assume "\<exists>pre t post. s = pre @ ''/examples/'' @ t @ ''.md'' @ post
        \<and> t \<noteq> [] \<and> (\<forall>c\<in>set t. \<not> line_terminator c)"
  then obtain pre t post where s: "s = pre @ ''/examples/'' @ t @ ''.md'' @ post"
    and t: "t \<noteq> []" "\<forall>c\<in>set t. \<not> line_terminator c"
    by blast
  from match_group_complete[OF t, of "''/examples/''" "''.md''" pre post] s
  show "match_examples s \<noteq> None"
    by (simp add: match_examples_def)
qed

lemma array_find_first:
  "i < length xs \<Longrightarrow> p (xs ! i) = Inr True \<Longrightarrow> \<forall>j<i. p (xs ! j) = Inr False
     \<Longrightarrow> array_find p xs = Inr (Some (xs ! i))"
proof (induction xs arbitrary: i)
  case Nil
  then show ?case by simp
next
  case (Cons x xs)
  show ?case
  proof (cases i)
    case 0
    with Cons.prems show ?thesis by simp
  next
    case (Suc k)
    with Cons.prems have "p x = Inr False" by auto
    moreover have "array_find p xs = Inr (Some (xs ! k))"
      using Cons.prems Suc by (intro Cons.IH) auto
    ultimately show ?thesis using Suc by simp
  qed
qed

lemma array_find_Some:
  "array_find p xs = Inr (Some x) \<Longrightarrow>
     \<exists>i<length xs. xs ! i = x \<and> p x = Inr True \<and> (\<forall>j<i. p (xs ! j) = Inr False)"
proof (induction xs)
  case Nil
  then show ?case by simp
next
  case (Cons y ys)
  show ?case
  proof (cases "p y")
    case (Inl e)
    with Cons.prems show ?thesis by simp
  next
    case (Inr b)
    show ?thesis
    proof (cases b)
      case True
      with Inr Cons.prems have "y = x" by simp
      with Inr True show ?thesis by (intro exI[of _ 0]) simp
    next
      case False
      with Inr Cons.prems have "array_find p ys = Inr (Some x)" by simp
      from Cons.IH[OF this] obtain i where
        i: "i < length ys" "ys ! i = x" "p x = Inr True" "\<forall>j<i. p (ys ! j) = Inr False"
        by blast
      have "\<forall>j<Suc i. p ((y # ys) ! j) = Inr False"
        using i(4) Inr False by (auto simp: less_Suc_eq_0_disj)
      with i show ?thesis by (intro exI[of _ "Suc i"]) simp
    qed
  qed
qed

lemma array_find_None:
  "array_find p xs = Inr None \<longleftrightarrow> (\<forall>x\<in>set xs. p x = Inr False)"
  by (induction xs) (auto split: sum.splits if_splits)

lemma didMatch_True:
  "didMatch RegExp pathname node = Inr True \<longleftrightarrow>
     (\<exists>m1 regexp. match_examples (fileAbsolutePath node) = Some m1
        \<and> RegExp (m1 @ ''/?'') = Some regexp \<and> regexp pathname)"
  by (auto simp: didMatch_def split: option.splits)

lemma didMatch_SyntaxError:
  "match_examples (fileAbsolutePath node) = Some m1 \<Longrightarrow> RegExp (m1 @ ''/?'') = None
     \<Longrightarrow> didMatch RegExp pathname node = Inl SyntaxError"
  by (simp add: didMatch_def)

text \<open>
  What the lookup does where no construction of a regular expression throws. A node
  tests true when its \<open>fileAbsolutePath\<close> matches \<open>/(\/examples\/.+)\.md[x]?/\<close> and
  the regular expression made of the captured subpath, followed by an optional slash,
  tests true on the current pathname. A node that is found is the first to test true,
  every node before it having tested false; and a node that tests true, with every node
  before it testing false, is the node found.
\<close>

lemma mdxPage_first_match:
  "(mdxPage RegExp pathname allMdx = Inr (Some node) \<longrightarrow>
      (\<exists>i<length allMdx. allMdx ! i = node
         \<and> (\<exists>m1 regexp. match_examples (fileAbsolutePath node) = Some m1
               \<and> RegExp (m1 @ ''/?'') = Some regexp \<and> regexp pathname)
         \<and> (\<forall>j<i. didMatch RegExp pathname (allMdx ! j) = Inr False)))
   \<and> (\<forall>i<length allMdx.
         (\<exists>m1 regexp. match_examples (fileAbsolutePath (allMdx ! i)) = Some m1
               \<and> RegExp (m1 @ ''/?'') = Some regexp \<and> regexp pathname)
         \<and> (\<forall>j<i. didMatch RegExp pathname (allMdx ! j) = Inr False)
         \<longrightarrow> mdxPage RegExp pathname allMdx = Inr (Some (allMdx ! i)))"
proof (intro conjI impI allI)
  assume "mdxPage RegExp pathname allMdx = Inr (Some node)"
  then have "array_find (didMatch RegExp pathname) allMdx = Inr (Some node)"
    by (simp add: mdxPage_def)
  from array_find_Some[OF this] show
    "\<exists>i<length allMdx. allMdx ! i = node
         \<and> (\<exists>m1 regexp. match_examples (fileAbsolutePath node) = Some m1
               \<and> RegExp (m1 @ ''/?'') = Some regexp \<and> regexp pathname)
         \<and> (\<forall>j<i. didMatch RegExp pathname (allMdx ! j) = Inr False)"
    by (simp only: didMatch_True)
next
  fix i
  assume i: "i < length allMdx"
    and m: "(\<exists>m1 regexp. match_examples (fileAbsolutePath (allMdx ! i)) = Some m1
               \<and> RegExp (m1 @ ''/?'') = Some regexp \<and> regexp pathname)
         \<and> (\<forall>j<i. didMatch RegExp pathname (allMdx ! j) = Inr False)"
  from m have "didMatch RegExp pathname (allMdx ! i) = Inr True"
    by (simp only: didMatch_True)
  with i m show "mdxPage RegExp pathname allMdx = Inr (Some (allMdx ! i))"
    unfolding mdxPage_def by (intro array_find_first) auto
qed

lemma mdxPage_first_match_example:
  "mdxPage [''/examples/react/?'' \<mapsto> occurs_in ''/examples/react''] ''/examples/react''
     [\<lparr>fileAbsolutePath = ''/site/docs/intro.mdx'', tableOfContents = Toc None None None\<rparr>,
      \<lparr>fileAbsolutePath = ''/site/examples/react.mdx'',
        tableOfContents = Toc None None (Some [Toc None (Some ''React'') None])\<rparr>,
      \<lparr>fileAbsolutePath = ''/site/examples/react.mdx'', tableOfContents = Toc None None None\<rparr>]
   = Inr (Some \<lparr>fileAbsolutePath = ''/site/examples/react.mdx'',
                 tableOfContents = Toc None None (Some [Toc None (Some ''React'') None])\<rparr>)
   \<and> didMatch [''/examples/react/?'' \<mapsto> occurs_in ''/examples/react''] ''/examples/react''
       \<lparr>fileAbsolutePath = ''/site/examples/react.mdx'', tableOfContents = Toc None None None\<rparr>
     = Inr True"
proof -
  let ?E = "[''/examples/react/?'' \<mapsto> occurs_in ''/examples/react'']"
  let ?n0 = "\<lparr>fileAbsolutePath = ''/site/docs/intro.mdx'', tableOfContents = Toc None None None\<rparr>"
  let ?n1 = "\<lparr>fileAbsolutePath = ''/site/examples/react.mdx'',
        tableOfContents = Toc None None (Some [Toc None (Some ''React'') None])\<rparr>"
  let ?n2 = "\<lparr>fileAbsolutePath = ''/site/examples/react.mdx'', tableOfContents = Toc None None None\<rparr>"
  have d0: "didMatch ?E ''/examples/react'' ?n0 = Inr False"
    by (simp add: didMatch_def match_examples_def line_terminator_def)
  have d2: "didMatch ?E ''/examples/react'' ?n2 = Inr True"
    by (simp add: didMatch_def match_examples_def line_terminator_def)
  have m: "\<exists>m1 regexp. match_examples (fileAbsolutePath ([?n0, ?n1, ?n2] ! 1)) = Some m1
               \<and> ?E (m1 @ ''/?'') = Some regexp \<and> regexp ''/examples/react''"
    by (simp add: match_examples_def line_terminator_def)
  have e: "\<forall>j<1. didMatch ?E ''/examples/react'' ([?n0, ?n1, ?n2] ! j) = Inr False"
    using d0 by simp
  have "mdxPage ?E ''/examples/react'' [?n0, ?n1, ?n2] = Inr (Some ([?n0, ?n1, ?n2] ! 1))"
    using mdxPage_first_match [of ?E "''/examples/react''" "[?n0, ?n1, ?n2]",
        THEN conjunct2, rule_format, of 1] m e
    by simp
  then show ?thesis using d2 by simp
qed

text \<open>
  Claim C4. The claim has the lookup select the first node that matches the pattern and
  whose subpath, as a regular expression, tests true on the pathname. The subpath goes
  into \<open>new RegExp\<close> unescaped: for a file \<open>examples/c++.mdx\<close> the constructor is
  given \<open>/examples/c++/?\<close> and throws. With that node ahead of the node for
  \<open>examples/react.mdx\<close>, which tests true on \<open>/examples/react\<close>, the lookup throws
  and selects nothing, for every engine that rejects the one pattern and accepts the
  other.
\<close>

theorem mdxPage_throws_before_match:
  "RegExp ''/examples/c++/?'' = None \<longrightarrow>
   RegExp ''/examples/react/?'' = Some test \<longrightarrow> test ''/examples/react'' \<longrightarrow>
     match_examples ''/site/examples/c++.mdx'' = Some ''/examples/c++''
     \<and> didMatch RegExp ''/examples/react''
           \<lparr>fileAbsolutePath = ''/site/examples/react.mdx'', tableOfContents = t2\<rparr>
         = Inr True
     \<and> mdxPage RegExp ''/examples/react''
           [\<lparr>fileAbsolutePath = ''/site/examples/c++.mdx'', tableOfContents = t1\<rparr>,
            \<lparr>fileAbsolutePath = ''/site/examples/react.mdx'', tableOfContents = t2\<rparr>]
         = Inl SyntaxError"
  by (simp add: mdxPage_def didMatch_def match_examples_def line_terminator_def)

theorem mdxPage_throws_before_match_witness:
  "didMatch [''/examples/react/?'' \<mapsto> occurs_in ''/examples/react''] ''/examples/react''
       \<lparr>fileAbsolutePath = ''/site/examples/react.mdx'',
         tableOfContents = Toc None None None\<rparr>
     = Inr True
   \<and> mdxPage [''/examples/react/?'' \<mapsto> occurs_in ''/examples/react''] ''/examples/react''
       [\<lparr>fileAbsolutePath = ''/site/examples/c++.mdx'',
          tableOfContents = Toc None None None\<rparr>,
        \<lparr>fileAbsolutePath = ''/site/examples/react.mdx'',
          tableOfContents = Toc None None None\<rparr>]
     = Inl SyntaxError"
proof -
  let ?E = "[''/examples/react/?'' \<mapsto> occurs_in ''/examples/react'']"
  have a: "?E ''/examples/c++/?'' = None" by simp
  have b: "?E ''/examples/react/?'' = Some (occurs_in ''/examples/react'')" by simp
  have c: "occurs_in ''/examples/react'' ''/examples/react''" by simp
  from mdxPage_throws_before_match
         [of ?E "occurs_in ''/examples/react''" "Toc None None None" "Toc None None None",
          THEN mp, OF a, THEN mp, OF b, THEN mp, OF c]
  show ?thesis by (elim conjE) (rule conjI)
qed

text \<open>
  What \<open>DocsPage\<close> does where no construction of a regular expression throws. When
  every node tests false, no page is found, \<open>tableOfContentsItems\<close> is \<open>undefined\<close> and
  the layout is rendered. When a node is found, \<open>DocsPage\<close> renders exactly if that
  node's table of contents has a first top-level item (otherwise the unguarded
  \<open>items[0].items\<close> throws), and the layout then receives that item's sub-items.
\<close>

lemma tableOfContentsItems_guard:
  "((\<forall>node\<in>set allMdx. didMatch RegExp pathname node = Inr False) \<longrightarrow>
      mdxPage RegExp pathname allMdx = Inr None
      \<and> (\<exists>layout. DocsPage RegExp routerFor allMdx pathname children = Inr layout
            \<and> currentPageTableOfContentsItems layout = None))
   \<and> (mdxPage RegExp pathname allMdx = Inr (Some node) \<longrightarrow>
        ((\<exists>layout. DocsPage RegExp routerFor allMdx pathname children = Inr layout)
           \<longleftrightarrow> (\<exists>first rest. toc_items (tableOfContents node) = Some (first # rest)))
      \<and> (\<forall>first rest. toc_items (tableOfContents node) = Some (first # rest) \<longrightarrow>
            (\<exists>layout. DocsPage RegExp routerFor allMdx pathname children = Inr layout
               \<and> currentPageTableOfContentsItems layout = toc_items first)))"
proof (intro conjI impI)
  assume "\<forall>node\<in>set allMdx. didMatch RegExp pathname node = Inr False"
  then have "mdxPage RegExp pathname allMdx = Inr None"
    by (simp add: mdxPage_def array_find_None)
  then show "mdxPage RegExp pathname allMdx = Inr None" .
  from \<open>mdxPage RegExp pathname allMdx = Inr None\<close>
  show "\<exists>layout. DocsPage RegExp routerFor allMdx pathname children = Inr layout
            \<and> currentPageTableOfContentsItems layout = None"
    by (simp add: DocsPage_def tableOfContentsItems_def Let_def)
next
  assume p: "mdxPage RegExp pathname allMdx = Inr (Some node)"
  show "(\<exists>layout. DocsPage RegExp routerFor allMdx pathname children = Inr layout)
           \<longleftrightarrow> (\<exists>first rest. toc_items (tableOfContents node) = Some (first # rest))"
    using p by (auto simp: DocsPage_def tableOfContentsItems_def Let_def
                     split: option.splits list.splits)
  show "\<forall>first rest. toc_items (tableOfContents node) = Some (first # rest) \<longrightarrow>
            (\<exists>layout. DocsPage RegExp routerFor allMdx pathname children = Inr layout
               \<and> currentPageTableOfContentsItems layout = toc_items first)"
    using p by (simp add: DocsPage_def tableOfContentsItems_def Let_def)
qed

lemma tableOfContentsItems_guard_example:
  "map_sum id currentPageTableOfContentsItems
     (DocsPage [''/examples/react/?'' \<mapsto> occurs_in ''/examples/react'']
        (\<lambda>p. \<lparr>router_routes = (), router_previousPage = (), router_nextPage = ()\<rparr>)
        [\<lparr>fileAbsolutePath = ''/site/docs/intro.mdx'', tableOfContents = Toc None None None\<rparr>]
        ''/examples/react'' ())
   = Inr None
   \<and> map_sum id currentPageTableOfContentsItems
     (DocsPage [''/examples/react/?'' \<mapsto> occurs_in ''/examples/react'']
        (\<lambda>p. \<lparr>router_routes = (), router_previousPage = (), router_nextPage = ()\<rparr>)
        [\<lparr>fileAbsolutePath = ''/site/examples/react.mdx'',
           tableOfContents =
             Toc None None (Some [Toc None (Some ''React'') (Some [Toc None (Some ''Server'') None])])\<rparr>]
        ''/examples/react'' ())
   = Inr (Some [Toc None (Some ''Server'') None])"
proof -
  let ?E = "[''/examples/react/?'' \<mapsto> occurs_in ''/examples/react'']"
  let ?R = "\<lambda>p :: string. \<lparr>router_routes = (), router_previousPage = (), router_nextPage = ()\<rparr>"
  let ?n0 = "\<lparr>fileAbsolutePath = ''/site/docs/intro.mdx'', tableOfContents = Toc None None None\<rparr>"
  let ?n1 = "\<lparr>fileAbsolutePath = ''/site/examples/react.mdx'',
           tableOfContents =
             Toc None None (Some [Toc None (Some ''React'') (Some [Toc None (Some ''Server'') None])])\<rparr>"
  have d0: "\<forall>node\<in>set [?n0]. didMatch ?E ''/examples/react'' node = Inr False"
    by (simp add: didMatch_def match_examples_def line_terminator_def)
  have p1: "mdxPage ?E ''/examples/react'' [?n1] = Inr (Some ?n1)"
    by (simp add: mdxPage_def didMatch_def match_examples_def line_terminator_def)
  have t1: "toc_items (tableOfContents ?n1)
              = Some (Toc None (Some ''React'') (Some [Toc None (Some ''Server'') None]) # [])"
    by simp
  from tableOfContentsItems_guard
         [where allMdx = "[?n0]" and RegExp = ?E and pathname = "''/examples/react''"
            and routerFor = ?R and children = "()",
          THEN conjunct1, THEN mp, OF d0]
  have a: "map_sum id currentPageTableOfContentsItems
             (DocsPage ?E ?R [?n0] ''/examples/react'' ()) = Inr None"
    by (elim conjE exE) simp
  from tableOfContentsItems_guard
         [where allMdx = "[?n1]" and RegExp = ?E and pathname = "''/examples/react''"
            and routerFor = ?R and children = "()" and node = ?n1,
          THEN conjunct2, THEN mp, OF p1, THEN conjunct2, rule_format, OF t1]
  have b: "map_sum id currentPageTableOfContentsItems
             (DocsPage ?E ?R [?n1] ''/examples/react'' ())
           = Inr (Some [Toc None (Some ''Server'') None])"
    by (elim conjE exE) simp
  from a b show ?thesis by (rule conjI)
qed

text \<open>
  Claim C10. The claim has \<open>DocsPage\<close> render without error whenever no node matches
  the pathname. With only the node for \<open>examples/c++.mdx\<close> and the pathname
  \<open>/examples/react\<close> no node matches, yet the lookup throws on constructing
  \<open>/examples/c++/?\<close> and \<open>DocsPage\<close> does not render: the same unescaped subpath as
  in claim C4.
\<close>

theorem DocsPage_throws_without_match:
  "RegExp ''/examples/c++/?'' = None \<longrightarrow>
     didMatch RegExp ''/examples/react''
         \<lparr>fileAbsolutePath = ''/site/examples/c++.mdx'', tableOfContents = t1\<rparr>
       \<noteq> Inr True
     \<and> DocsPage RegExp routerFor
           [\<lparr>fileAbsolutePath = ''/site/examples/c++.mdx'', tableOfContents = t1\<rparr>]
           ''/examples/react'' children
         = Inl SyntaxError"
  by (simp add: DocsPage_def mdxPage_def didMatch_def match_examples_def
        line_terminator_def)

theorem DocsPage_throws_without_match_witness:
  "DocsPage [''/examples/react/?'' \<mapsto> occurs_in ''/examples/react'']
     (\<lambda>p. \<lparr>router_routes = (), router_previousPage = (), router_nextPage = ()\<rparr>)
     [\<lparr>fileAbsolutePath = ''/site/examples/c++.mdx'', tableOfContents = Toc None None None\<rparr>]
     ''/examples/react'' ()
   = Inl SyntaxError"
proof -
  let ?E = "[''/examples/react/?'' \<mapsto> occurs_in ''/examples/react'']"
  have a: "?E ''/examples/c++/?'' = None" by simp
  from DocsPage_throws_without_match
         [of ?E "Toc None None None"
            "\<lambda>p. \<lparr>router_routes = (), router_previousPage = (), router_nextPage = ()\<rparr>"
            "()",
          THEN mp, OF a]
  show ?thesis by (rule conjunct2)
qed

end
